theory Spec2Isabelle
  imports Complex_Main "HOL-Library.Multiset"
begin

chapter \<open>The model\<close>

section \<open>Python values used by the concierge bot\<close>

text \<open>
  Python \<open>str\<close> values are modelled as \<^typ>\<open>string\<close>. The case mapping and the
  whitespace class below are those of Python on ASCII text: \<open>str.lower\<close> maps \<open>A..Z\<close> to
  \<open>a..z\<close>, and \<open>str.isspace\<close> (which \<open>strip\<close>, \<open>split\<close> and the regular expression class
  \<open>\s\<close> follow) holds for the code points 9 to 13, 28 to 31 and 32. Characters above 127
  are left unchanged and are not whitespace in this model.
\<close>

definition py_isspace :: "char \<Rightarrow> bool" where
  "py_isspace c = (of_char c \<in> {9, 10, 11, 12, 13, 28, 29, 30, 31, 32 :: nat})"

definition is_upper :: "char \<Rightarrow> bool" where
  "is_upper c = (65 \<le> (of_char c :: nat) \<and> (of_char c :: nat) \<le> 90)"

text \<open>Lowering an upper-case ASCII letter sets bit 5 of its code (adds 32).\<close>

definition lower_char :: "char \<Rightarrow> char" where
  "lower_char c = (if is_upper c
     then Char (digit0 c) (digit1 c) (digit2 c) (digit3 c) (digit4 c) True (digit6 c) (digit7 c)
     else c)"

definition py_lower :: "string \<Rightarrow> string" where
  "py_lower s = map lower_char s"

definition py_strip :: "string \<Rightarrow> string" where
  "py_strip s = rev (dropWhile py_isspace (rev (dropWhile py_isspace s)))"

text \<open>\<open>startswith s p\<close> is \<open>s.startswith(p)\<close>; \<open>py_in p s\<close> is the substring test \<open>p in s\<close>.\<close>

fun startswith :: "string \<Rightarrow> string \<Rightarrow> bool" where
  "startswith s [] = True"
| "startswith [] (p # ps) = False"
| "startswith (c # cs) (p # ps) = (c = p \<and> startswith cs ps)"

fun py_in :: "string \<Rightarrow> string \<Rightarrow> bool" where
  "py_in p [] = (p = [])"
| "py_in p (c # cs) = (startswith (c # cs) p \<or> py_in p cs)"

text \<open>\<open>sep.join(parts)\<close>.\<close>

fun py_join :: "string \<Rightarrow> string list \<Rightarrow> string" where
  "py_join sep [] = []"
| "py_join sep [x] = x"
| "py_join sep (x # y # ys) = x @ sep @ py_join sep (y # ys)"

text \<open>\<open>str(n)\<close> for an integer: decimal digits, with a leading minus sign below zero.\<close>

definition digit_char :: "nat \<Rightarrow> char" where
  "digit_char d = ''0123456789'' ! d"

fun str_nat :: "nat \<Rightarrow> string" where
  "str_nat n = (if n < 10 then [digit_char n] else str_nat (n div 10) @ [digit_char (n mod 10)])"

declare str_nat.simps [simp del]

definition str_int :: "int \<Rightarrow> string" where
  "str_int i = (if i < 0 then CHR ''-'' # str_nat (nat (- i)) else str_nat (nat i))"

text \<open>\<open>int(x)\<close> for a float \<open>x\<close> truncates towards zero.\<close>

definition py_int :: "real \<Rightarrow> int" where
  "py_int x = (if 0 \<le> x then \<lfloor>x\<rfloor> else \<lceil>x\<rceil>)"

subsection \<open>Sheet cells and rows\<close>

text \<open>
  The sheets web app returns a JSON list of row objects. A cell is text, a whole number or
  null; a row is the dictionary of its cells in column order, modelled as an association
  list with \<open>row.get(k)\<close> as the lookup (\<open>None\<close>, here \<open>CNull\<close>, when the key is absent).
\<close>

datatype cell = CStr string | CNum int | CNull

type_synonym row = "(string \<times> cell) list"

fun truthy :: "cell \<Rightarrow> bool" where
  "truthy (CStr s) = (s \<noteq> [])"
| "truthy (CNum n) = (n \<noteq> 0)"
| "truthy CNull = False"

fun py_str :: "cell \<Rightarrow> string" where
  "py_str (CStr s) = s"
| "py_str (CNum n) = str_int n"
| "py_str CNull = ''None''"

definition py_or :: "cell \<Rightarrow> cell \<Rightarrow> cell" where
  "py_or a b = (if truthy a then a else b)"

definition row_get :: "row \<Rightarrow> string \<Rightarrow> cell" where
  "row_get r k = (case map_of r k of None \<Rightarrow> CNull | Some v \<Rightarrow> v)"

text \<open>Exceptions the modelled code can raise.\<close>

datatype exn = AttributeError | TypeError | KeyError | RuntimeError | ExternalError

section \<open>Policy evaluator\<close>

text \<open>\<open>ConciergeBot._is_user_booked\<close>. The argument is \<open>None\<close> or a row; \<open>not client_row\<close>
  holds for \<open>None\<close> and for the empty dictionary.\<close>

definition placeholders :: "string list" where
  "placeholders = [''-'', ''none'', '''', ''n/a'']"

definition workflow_stage :: "row \<Rightarrow> string" where
  "workflow_stage r = py_lower (py_strip (py_str
     (py_or (row_get r ''Workfow Stage'')
     (py_or (row_get r ''Workflow Stage'')
     (py_or (row_get r ''WorkFlow'')
     (py_or (row_get r ''Workfow'') (CStr '''')))))))"

definition booking_id_of :: "row \<Rightarrow> string" where
  "booking_id_of r = py_strip (py_str (py_or (row_get r ''Booking Id'') (CStr '''')))"

definition room_of :: "row \<Rightarrow> string" where
  "room_of r = py_strip (py_str (py_or (row_get r ''Room Alloted'') (CStr '''')))"

definition is_user_booked :: "row option \<Rightarrow> bool" where
  "is_user_booked client_row =
     (case client_row of
        None \<Rightarrow> False
      | Some r \<Rightarrow>
          if r = [] then False
          else if workflow_stage r = ''confirmed'' then True
          else if booking_id_of r \<noteq> [] \<and> booking_id_of r \<notin> set placeholders then True
          else if room_of r \<noteq> [] \<and> room_of r \<notin> set placeholders then True
          else False)"

text \<open>\<open>ConciergeBot._is_id_verified\<close>.\<close>

definition is_id_verified :: "row option \<Rightarrow> bool" where
  "is_id_verified client_row =
     (case client_row of
        None \<Rightarrow> False
      | Some r \<Rightarrow>
          if r = [] then False
          else let id_link = row_get r ''Id Link'' in
            if \<not> truthy id_link then False
            else let s = py_lower (py_strip (py_str id_link)) in
              if s = ''done'' \<or> py_in ''http'' s then True else False)"

text \<open>
  The policy evaluator as the specification words it: the booking identifier and the room
  assignment are compared with the placeholders without regard to case.
\<close>

definition spec_is_booked :: "row option \<Rightarrow> bool" where
  "spec_is_booked client_row =
     (case client_row of
        None \<Rightarrow> False
      | Some r \<Rightarrow>
          workflow_stage r = ''confirmed''
          \<or> (booking_id_of r \<noteq> [] \<and> py_lower (booking_id_of r) \<notin> set placeholders)
          \<or> (room_of r \<noteq> [] \<and> py_lower (room_of r) \<notin> set placeholders))"

section \<open>Identity resolver\<close>

text \<open>
  \<open>ConciergeBot._find_client_row\<close>. \<open>row.get("Email", "")\<close> is the empty string for a row
  without the key; \<open>.strip()\<close> on a cell that is not text raises \<open>AttributeError\<close>.
\<close>

definition email_of :: "row \<Rightarrow> exn + string" where
  "email_of r =
     (case map_of r ''Email'' of
        None \<Rightarrow> Inr (py_lower (py_strip []))
      | Some (CStr s) \<Rightarrow> Inr (py_lower (py_strip s))
      | Some _ \<Rightarrow> Inl AttributeError)"

definition field_norm :: "row \<Rightarrow> string \<Rightarrow> string" where
  "field_norm r k = py_lower (py_strip (py_str (py_or (row_get r k) (CStr ''''))))"

fun find_client_loop :: "string \<Rightarrow> row list \<Rightarrow> exn + row option" where
  "find_client_loop iid [] = Inr None"
| "find_client_loop iid (r # rows) =
     (case email_of r of
        Inl e \<Rightarrow> Inl e
      | Inr em \<Rightarrow>
          if em = iid then Inr (Some r)
          else let client_id = field_norm r ''Client Id'';
                   booking_id = field_norm r ''Booking Id'';
                   name = field_norm r ''Name''
               in if iid \<noteq> [] \<and> (iid = client_id \<or> iid = booking_id \<or> iid = name)
                  then Inr (Some r)
                  else find_client_loop iid rows)"

definition find_client_row :: "row list \<Rightarrow> string \<Rightarrow> exn + row option" where
  "find_client_row client_rows identifier =
     (if identifier = [] \<or> client_rows = [] then Inr None
      else find_client_loop (py_lower (py_strip identifier)) client_rows)"



section \<open>Conversation memory: the history key\<close>

text \<open>
  \<open>ConciergeBot._get_chat_history_key\<close>. The clock reading \<open>time.time()\<close> is the argument
  \<open>now\<close>. The key is the cell itself for a sheet-derived key, and text otherwise.
\<close>

definition get_chat_history_key :: "real \<Rightarrow> row option \<Rightarrow> string option \<Rightarrow> cell" where
  "get_chat_history_key now client_row user_identifier =
     (let has_row = (case client_row of None \<Rightarrow> False | Some r \<Rightarrow> r \<noteq> []);
          r = (case client_row of None \<Rightarrow> [] | Some r \<Rightarrow> r)
      in if has_row \<and> truthy (row_get r ''Email'') then row_get r ''Email''
         else if has_row \<and> truthy (row_get r ''Client Id'') then row_get r ''Client Id''
         else (case user_identifier of
                 Some u \<Rightarrow> if u \<noteq> [] then CStr (''user_'' @ u)
                           else CStr (''session_'' @ str_int (py_int now))
               | None \<Rightarrow> CStr (''session_'' @ str_int (py_int now))))"

section \<open>The booking-form directive of the chat endpoints\<close>

text \<open>
  The two \<open>chat\<close> handlers compute \<open>actions.show_booking_form\<close>, which starts as \<open>False\<close>.
  In \<open>main_new.py\<close> it is set from the lower-cased message; in \<open>main.py\<close> it is set from the
  intent label returned by \<open>classify_intent\<close>, which is an argument here.
\<close>

definition booking_keywords :: "string list" where
  "booking_keywords =
     [''book a room'', ''book room'', ''book'', ''reserve'', ''reservation'',
      ''room availability'']"

definition main_new_show_booking_form :: "string \<Rightarrow> string \<Rightarrow> bool" where
  "main_new_show_booking_form message intent =
     (let message_lower = py_lower message
      in if list_ex (\<lambda>kw. py_in kw message_lower) booking_keywords then True else False)"

definition main_show_booking_form :: "string \<Rightarrow> string \<Rightarrow> bool" where
  "main_show_booking_form message intent =
     (if intent \<in> set [''payment_request'', ''booking_request''] then True else False)"

text \<open>The directive as the specification words it.\<close>

definition spec_show_booking_form :: "string \<Rightarrow> string \<Rightarrow> bool" where
  "spec_show_booking_form message intent =
     (list_ex (\<lambda>kw. py_in kw (py_lower message)) booking_keywords
      \<or> intent = ''booking_request'' \<or> intent = ''payment_request'')"

section \<open>Sequence similarity: \<open>difflib.SequenceMatcher\<close>\<close>

text \<open>
  \<open>_score_doc\<close> calls \<open>difflib.SequenceMatcher(None, a, b).ratio()\<close> of the Python standard
  library. The functions below follow \<open>Lib/difflib.py\<close>: \<open>__chain_b\<close> (with the automatic
  junk heuristic for \<open>b\<close> of 200 elements or more), \<open>find_longest_match\<close>,
  \<open>get_matching_blocks\<close>, \<open>_calculate_ratio\<close> and \<open>ratio\<close>. Floating point division is
  division of reals.
\<close>

text \<open>
  \<open>b2j\<close> maps an element to the increasing list of its indices in \<open>b\<close>; elements that occur
  more than \<open>len(b) // 100 + 1\<close> times in a \<open>b\<close> of length at least 200 are removed.
\<close>

definition indices_of :: "char \<Rightarrow> string \<Rightarrow> nat list" where
  "indices_of c b = filter (\<lambda>j. b ! j = c) [0..<length b]"

definition popular :: "string \<Rightarrow> char \<Rightarrow> bool" where
  "popular b c = (200 \<le> length b \<and> length b div 100 + 1 < length (indices_of c b))"

definition b2j :: "string \<Rightarrow> char \<Rightarrow> nat list" where
  "b2j b c = (if popular b c then [] else indices_of c b)"

text \<open>
  \<open>find_longest_match\<close>. The dictionary \<open>j2len\<close> maps an index of \<open>b\<close> to the length of the
  longest match ending there; an absent key reads as 0 (\<open>j2len.get(j-1, 0)\<close>, where the key
  \<open>-1\<close> is never present). \<open>inner_loop\<close> is the loop over \<open>b2j[a[i]]\<close> with its \<open>continue\<close>
  and \<open>break\<close>; \<open>i-k+1\<close> is written \<open>i + 1 - k\<close>, which never truncates since \<open>k \<le> i + 1\<close>.
\<close>

fun inner_loop ::
  "(nat \<Rightarrow> nat) \<Rightarrow> nat \<Rightarrow> nat \<Rightarrow> nat \<Rightarrow> nat list \<Rightarrow> (nat \<Rightarrow> nat) \<times> nat \<times> nat \<times> nat
     \<Rightarrow> (nat \<Rightarrow> nat) \<times> nat \<times> nat \<times> nat" where
  "inner_loop j2len i blo bhi [] st = st"
| "inner_loop j2len i blo bhi (j # js) (newj2len, besti, bestj, bestsize) =
     (if j < blo then inner_loop j2len i blo bhi js (newj2len, besti, bestj, bestsize)
      else if bhi \<le> j then (newj2len, besti, bestj, bestsize)
      else let k = (if j = 0 then 0 else j2len (j - 1)) + 1
           in if bestsize < k
              then inner_loop j2len i blo bhi js (newj2len(j := k), i + 1 - k, j + 1 - k, k)
              else inner_loop j2len i blo bhi js (newj2len(j := k), besti, bestj, bestsize))"

fun outer_loop ::
  "string \<Rightarrow> string \<Rightarrow> nat \<Rightarrow> nat \<Rightarrow> nat list \<Rightarrow> (nat \<Rightarrow> nat) \<times> nat \<times> nat \<times> nat
     \<Rightarrow> nat \<times> nat \<times> nat" where
  "outer_loop a b blo bhi [] (j2len, besti, bestj, bestsize) = (besti, bestj, bestsize)"
| "outer_loop a b blo bhi (i # is) (j2len, besti, bestj, bestsize) =
     outer_loop a b blo bhi is
       (inner_loop j2len i blo bhi (b2j b (a ! i)) (\<lambda>_. 0, besti, bestj, bestsize))"

text \<open>
  The two loops that extend the block on both sides. No element is junk (\<open>isjunk\<close> is
  \<open>None\<close>), so the tests \<open>not isbjunk(...)\<close> hold and the two further loops over junk
  elements never run.
\<close>

function extend_left :: "string \<Rightarrow> string \<Rightarrow> nat \<Rightarrow> nat \<Rightarrow> nat \<times> nat \<times> nat \<Rightarrow> nat \<times> nat \<times> nat" where
  "extend_left a b alo blo (besti, bestj, bestsize) =
     (if alo < besti \<and> blo < bestj \<and> a ! (besti - 1) = b ! (bestj - 1)
      then extend_left a b alo blo (besti - 1, bestj - 1, bestsize + 1)
      else (besti, bestj, bestsize))"
  by pat_completeness auto
termination
  by (relation "measure (\<lambda>(a, b, alo, blo, besti, bestj, bestsize). besti)") auto

function extend_right :: "string \<Rightarrow> string \<Rightarrow> nat \<Rightarrow> nat \<Rightarrow> nat \<times> nat \<times> nat \<Rightarrow> nat \<times> nat \<times> nat" where
  "extend_right a b ahi bhi (besti, bestj, bestsize) =
     (if besti + bestsize < ahi \<and> bestj + bestsize < bhi
         \<and> a ! (besti + bestsize) = b ! (bestj + bestsize)
      then extend_right a b ahi bhi (besti, bestj, bestsize + 1)
      else (besti, bestj, bestsize))"
  by pat_completeness auto
termination
  by (relation "measure (\<lambda>(a, b, ahi, bhi, besti, bestj, bestsize). ahi - (besti + bestsize))") auto

declare extend_left.simps [simp del] extend_right.simps [simp del]

definition find_longest_match :: "string \<Rightarrow> string \<Rightarrow> nat \<Rightarrow> nat \<Rightarrow> nat \<Rightarrow> nat \<Rightarrow> nat \<times> nat \<times> nat" where
  "find_longest_match a b alo ahi blo bhi =
     extend_right a b ahi bhi
       (extend_left a b alo blo
          (outer_loop a b blo bhi [alo..<ahi] (\<lambda>_. 0, alo, blo, 0)))"

text \<open>
  Invariants of the search: the lengths recorded for row \<open>i\<close> and the best block found
  so far stay inside the window \<open>a[alo:ahi]\<close>, \<open>b[blo:bhi]\<close>. They give the bounds on the
  block that \<open>find_longest_match\<close> returns, on which the termination of the recursion over
  the windows rests.
\<close>

definition j2len_ok :: "nat \<Rightarrow> nat \<Rightarrow> nat \<Rightarrow> nat \<Rightarrow> (nat \<Rightarrow> nat) \<Rightarrow> bool" where
  "j2len_ok alo blo bhi i f = (\<forall>j. f j \<noteq> 0 \<longrightarrow> blo \<le> j \<and> j < bhi \<and> f j \<le> i + 1 - alo \<and> f j \<le> j + 1 - blo)"

definition best_ok :: "nat \<Rightarrow> nat \<Rightarrow> nat \<Rightarrow> nat \<Rightarrow> nat \<times> nat \<times> nat \<Rightarrow> bool" where
  "best_ok alo ahi blo bhi t = (case t of (besti, bestj, bestsize) \<Rightarrow>
     alo \<le> besti \<and> blo \<le> bestj \<and>
     (if bestsize = 0 then besti = alo \<and> bestj = blo
      else besti + bestsize \<le> ahi \<and> bestj + bestsize \<le> bhi))"

lemma inner_loop_inv:
  assumes "\<forall>j. j2len j \<noteq> 0 \<longrightarrow> blo \<le> j \<and> j < bhi \<and> j2len j \<le> i - alo \<and> j2len j \<le> j + 1 - blo"
    and "alo \<le> i" and "i < ahi"
    and "j2len_ok alo blo bhi i new" and "best_ok alo ahi blo bhi (bi, bj, bs)"
    and "inner_loop j2len i blo bhi js (new, bi, bj, bs) = (new', bi', bj', bs')"
  shows "j2len_ok alo blo bhi i new' \<and> best_ok alo ahi blo bhi (bi', bj', bs')"
  using assms(4-)
proof (induction js arbitrary: new bi bj bs)
  case Nil
  then show ?case by simp
next
  case (Cons j js)
  show ?case
  proof (cases "j < blo")
    case True
    with Cons show ?thesis by simp
  next
    case nb: False
    show ?thesis
    proof (cases "bhi \<le> j")
      case True
      with nb Cons show ?thesis by simp
    next
      case False
      define k where "k = (if j = 0 then 0 else j2len (j - 1)) + 1"
      define p where "p = (if j = 0 then 0 else j2len (j - 1))"
      have k_def': "k = p + 1" by (simp add: k_def p_def)
      have p1: "p \<le> i - alo"
      proof (cases "p = 0")
        case True
        then show ?thesis by simp
      next
        case False
        then have "j \<noteq> 0" and "j2len (j - 1) \<noteq> 0" and "p = j2len (j - 1)"
          by (auto simp: p_def split: if_splits)
        with assms(1) show ?thesis by simp
      qed
      have p2: "p \<le> j - blo"
      proof (cases "p = 0")
        case True
        then show ?thesis by simp
      next
        case False
        then have j0: "j \<noteq> 0" and nz: "j2len (j - 1) \<noteq> 0" and pe: "p = j2len (j - 1)"
          by (auto simp: p_def split: if_splits)
        from assms(1) nz have "blo \<le> j - 1" and "j2len (j - 1) \<le> (j - 1) + 1 - blo" by auto
        with j0 pe show ?thesis by simp
      qed
      have k1: "k \<le> i + 1 - alo" using p1 assms(2) by (simp add: k_def')
      have k2: "k \<le> j + 1 - blo" using p2 nb by (simp add: k_def')
      have kpos: "0 < k" by (simp add: k_def)
      have new_ok: "j2len_ok alo blo bhi i (new(j := k))"
        using Cons.prems(1) k1 k2 nb False by (auto simp: j2len_ok_def)
      show ?thesis
      proof (cases "bs < k")
        case True
        have "best_ok alo ahi blo bhi (i + 1 - k, j + 1 - k, k)"
          using k1 k2 kpos assms(2,3) nb False by (auto simp: best_ok_def)
        moreover have "inner_loop j2len i blo bhi js (new(j := k), i + 1 - k, j + 1 - k, k) = (new', bi', bj', bs')"
          using Cons.prems(3) nb False True by (simp add: k_def Let_def)
        ultimately show ?thesis using Cons.IH new_ok by blast
      next
        case nk: False
        have "inner_loop j2len i blo bhi js (new(j := k), bi, bj, bs) = (new', bi', bj', bs')"
          using Cons.prems(3) nb False nk by (simp add: k_def Let_def)
        then show ?thesis using Cons.IH new_ok Cons.prems(2) by blast
      qed
    qed
  qed
qed

definition block_ok :: "nat \<Rightarrow> nat \<Rightarrow> nat \<Rightarrow> nat \<Rightarrow> nat \<times> nat \<times> nat \<Rightarrow> bool" where
  "block_ok alo ahi blo bhi t = (case t of (i, j, k) \<Rightarrow>
     alo \<le> i \<and> blo \<le> j \<and> (k = 0 \<or> (i + k \<le> ahi \<and> j + k \<le> bhi)))"

lemma outer_loop_inv:
  assumes "alo \<le> m"
    and "\<forall>j. j2len j \<noteq> 0 \<longrightarrow> blo \<le> j \<and> j < bhi \<and> j2len j \<le> m - alo \<and> j2len j \<le> j + 1 - blo"
    and "best_ok alo ahi blo bhi (bi, bj, bs)"
  shows "best_ok alo ahi blo bhi (outer_loop a b blo bhi [m..<ahi] (j2len, bi, bj, bs))"
  using assms
proof (induction "ahi - m" arbitrary: m j2len bi bj bs)
  case 0
  then show ?case by simp
next
  case (Suc n)
  then have lt: "m < ahi" by simp
  then have upt: "[m..<ahi] = m # [Suc m..<ahi]" by (simp add: upt_conv_Cons)
  obtain new' bi' bj' bs' where
    il: "inner_loop j2len m blo bhi (b2j b (a ! m)) (\<lambda>_. 0, bi, bj, bs) = (new', bi', bj', bs')"
    by (metis prod_cases4)
  have "j2len_ok alo blo bhi m (\<lambda>_. 0)" by (simp add: j2len_ok_def)
  with inner_loop_inv [OF Suc.prems(2) Suc.prems(1) lt _ Suc.prems(3) il]
  have ok: "j2len_ok alo blo bhi m new'" and best: "best_ok alo ahi blo bhi (bi', bj', bs')"
    by simp_all
  have nxt: "\<forall>j. new' j \<noteq> 0 \<longrightarrow> blo \<le> j \<and> j < bhi \<and> new' j \<le> Suc m - alo \<and> new' j \<le> j + 1 - blo"
  proof (intro allI impI)
    fix j assume "new' j \<noteq> 0"
    with ok have "blo \<le> j \<and> j < bhi \<and> new' j \<le> m + 1 - alo \<and> new' j \<le> j + 1 - blo"
      unfolding j2len_ok_def by blast
    then show "blo \<le> j \<and> j < bhi \<and> new' j \<le> Suc m - alo \<and> new' j \<le> j + 1 - blo"
      by simp
  qed
  have "n = ahi - Suc m" using Suc.hyps(2) by simp
  moreover have "alo \<le> Suc m" using Suc.prems(1) by simp
  ultimately have "best_ok alo ahi blo bhi (outer_loop a b blo bhi [Suc m..<ahi] (new', bi', bj', bs'))"
    using Suc.hyps(1) nxt best by blast
  then show ?case by (simp add: upt il)
qed

lemma extend_left_inv:
  "best_ok alo ahi blo bhi t \<Longrightarrow> best_ok alo ahi blo bhi (extend_left a b alo blo t)"
proof (induction a b alo blo t rule: extend_left.induct)
  case (1 a b alo blo besti bestj bestsize)
  show ?case
  proof (cases "alo < besti \<and> blo < bestj \<and> a ! (besti - 1) = b ! (bestj - 1)")
    case True
    with "1.prems" have "best_ok alo ahi blo bhi (besti - 1, bestj - 1, bestsize + 1)"
      by (auto simp: best_ok_def split: if_splits)
    with True "1.IH" show ?thesis by (subst extend_left.simps) simp
  next
    case False
    with "1.prems" show ?thesis by (subst extend_left.simps) auto
  qed
qed

lemma extend_right_inv:
  "block_ok alo ahi blo bhi t \<Longrightarrow> block_ok alo ahi blo bhi (extend_right a b ahi bhi t)"
proof (induction a b ahi bhi t rule: extend_right.induct)
  case (1 a b ahi bhi besti bestj bestsize)
  show ?case
  proof (cases "besti + bestsize < ahi \<and> bestj + bestsize < bhi
         \<and> a ! (besti + bestsize) = b ! (bestj + bestsize)")
    case True
    with "1.prems" have "block_ok alo ahi blo bhi (besti, bestj, bestsize + 1)"
      by (auto simp: block_ok_def)
    with True "1.IH" show ?thesis by (subst extend_right.simps) simp
  next
    case False
    with "1.prems" show ?thesis by (subst extend_right.simps) auto
  qed
qed

lemma best_ok_block_ok: "best_ok alo ahi blo bhi t \<Longrightarrow> block_ok alo ahi blo bhi t"
  by (auto simp: best_ok_def block_ok_def split: if_splits)

lemma find_longest_match_ok: "block_ok alo ahi blo bhi (find_longest_match a b alo ahi blo bhi)"
proof -
  have "best_ok alo ahi blo bhi (alo, blo, 0)" by (simp add: best_ok_def)
  then have "best_ok alo ahi blo bhi (outer_loop a b blo bhi [alo..<ahi] (\<lambda>_. 0, alo, blo, 0))"
    by (intro outer_loop_inv) simp_all
  then show ?thesis
    unfolding find_longest_match_def
    by (intro extend_right_inv best_ok_block_ok extend_left_inv)
qed

lemma find_longest_match_bounds:
  "find_longest_match a b alo ahi blo bhi = (i, j, k) \<Longrightarrow>
     alo \<le> i \<and> blo \<le> j \<and> (k = 0 \<or> (i + k \<le> ahi \<and> j + k \<le> bhi))"
  using find_longest_match_ok [of alo ahi blo bhi a b] by (simp add: block_ok_def)

text \<open>
  \<open>get_matching_blocks\<close>: the work list is a stack, so after a block the window to its right
  is searched before the window to its left. Sorting the blocks, merging adjacent ones and
  appending the final block of size 0 do not change the sum of the sizes, which is all that
  \<open>ratio\<close> reads.
\<close>

function matching_blocks ::
  "string \<Rightarrow> string \<Rightarrow> nat \<Rightarrow> nat \<Rightarrow> nat \<Rightarrow> nat \<Rightarrow> (nat \<times> nat \<times> nat) list" where
  "matching_blocks a b alo ahi blo bhi =
     (case find_longest_match a b alo ahi blo bhi of
        (i, j, k) \<Rightarrow>
          if k = 0 then []
          else (i, j, k)
               # (if i + k < ahi \<and> j + k < bhi then matching_blocks a b (i + k) ahi (j + k) bhi
                  else [])
               @ (if alo < i \<and> blo < j then matching_blocks a b alo i blo j else []))"
  by pat_completeness auto
termination
proof (relation "measure (\<lambda>(a, b, alo, ahi, blo, bhi). ahi - alo)", goal_cases)
  case 1
  then show ?case by simp
next
  case (2 a b alo ahi blo bhi x1 x2 x21 x22)
  then have "find_longest_match a b alo ahi blo bhi = (x1, x21, x22)" by simp
  from find_longest_match_bounds [OF this] 2 show ?case by auto
next
  case (3 a b alo ahi blo bhi x1 x2 x21 x22)
  then have "find_longest_match a b alo ahi blo bhi = (x1, x21, x22)" by simp
  from find_longest_match_bounds [OF this] 3 show ?case by auto
qed

declare matching_blocks.simps [simp del]

definition block_sizes :: "(nat \<times> nat \<times> nat) list \<Rightarrow> nat" where
  "block_sizes blocks = sum_list (map (\<lambda>(i, j, k). k) blocks)"

definition calculate_ratio :: "nat \<Rightarrow> nat \<Rightarrow> real" where
  "calculate_ratio matches len = (if len \<noteq> 0 then 2 * real matches / real len else 1)"

definition SequenceMatcher_ratio :: "string \<Rightarrow> string \<Rightarrow> real" where
  "SequenceMatcher_ratio a b =
     calculate_ratio (block_sizes (matching_blocks a b 0 (length a) 0 (length b)))
       (length a + length b)"

section \<open>Knowledge retriever: the tabular scoring backend\<close>

text \<open>
  \<open>_normalize_text\<close>: lower-case, \<open>re.sub(r"[^a-z0-9\s]", " ", s)\<close>, then
  \<open>re.sub(r"\s+", " ", s).strip()\<close>.
\<close>

definition is_lower_alnum :: "char \<Rightarrow> bool" where
  "is_lower_alnum c =
     ((97 \<le> (of_char c :: nat) \<and> (of_char c :: nat) \<le> 122)
      \<or> (48 \<le> (of_char c :: nat) \<and> (of_char c :: nat) \<le> 57))"

definition sub_non_alnum :: "string \<Rightarrow> string" where
  "sub_non_alnum s = map (\<lambda>c. if is_lower_alnum c \<or> py_isspace c then c else CHR '' '') s"

function collapse_ws :: "string \<Rightarrow> string" where
  "collapse_ws [] = []"
| "collapse_ws (c # cs) =
     (if py_isspace c then CHR '' '' # collapse_ws (dropWhile py_isspace cs)
      else c # collapse_ws cs)"
  by pat_completeness auto
termination
  by (relation "measure length") (auto simp: less_Suc_eq_le length_dropWhile_le)

definition normalize_text :: "string \<Rightarrow> string" where
  "normalize_text s =
     (if s = [] then [] else py_strip (collapse_ws (sub_non_alnum (py_lower s))))"

text \<open>\<open>str.split()\<close> without arguments: the maximal runs of characters that are not whitespace.\<close>

function py_split :: "string \<Rightarrow> string list" where
  "py_split s =
     (case dropWhile py_isspace s of
        [] \<Rightarrow> []
      | c # cs \<Rightarrow> (c # takeWhile (\<lambda>x. \<not> py_isspace x) cs)
                  # py_split (dropWhile (\<lambda>x. \<not> py_isspace x) cs))"
  by pat_completeness auto
termination
proof (relation "measure length", goal_cases)
  case 1
  then show ?case by simp
next
  case (2 s c cs)
  have "length (dropWhile (\<lambda>x. \<not> py_isspace x) cs) \<le> length cs"
    by (rule length_dropWhile_le)
  moreover have "length (c # cs) \<le> length s"
    using 2 length_dropWhile_le [of py_isspace s] by simp
  ultimately show ?case by simp
qed

declare py_split.simps [simp del]

text \<open>
  \<open>ConciergeBot._score_doc\<close>. The float arithmetic is arithmetic of reals.
\<close>

definition score_doc :: "string \<Rightarrow> string \<Rightarrow> real" where
  "score_doc doc_text query =
     (if query = [] \<or> doc_text = [] then 0
      else let query_norm = normalize_text query;
               doc_norm = normalize_text doc_text;
               query_tokens = set (py_split query_norm);
               doc_tokens = set (py_split doc_norm)
           in if query_tokens = {} \<or> doc_tokens = {} then 0
              else let overlap = real (card (query_tokens \<inter> doc_tokens))
                                   / real (min (card query_tokens) (card doc_tokens));
                       seq_sim = SequenceMatcher_ratio query_norm doc_norm
                   in 0.65 * overlap + 0.35 * seq_sim)"



text \<open>\<open>ConciergeBot._row_to_doc_text\<close>.\<close>

fun first_truthy :: "row \<Rightarrow> string list \<Rightarrow> cell option" where
  "first_truthy row [] = None"
| "first_truthy row (key # keys) =
     (if truthy (row_get row key) then Some (row_get row key) else first_truthy row keys)"

definition row_to_doc_text :: "row \<Rightarrow> string" where
  "row_to_doc_text row =
     (let q_part = (case first_truthy row [''question'', ''q'', ''query'', ''prompt''] of
                      Some v \<Rightarrow> [''Q: '' @ py_str v] | None \<Rightarrow> []);
          a_part = (case first_truthy row [''answer'', ''a'', ''response'', ''reply''] of
                      Some v \<Rightarrow> [''A: '' @ py_str v] | None \<Rightarrow> []);
          text_parts = q_part @ a_part;
          text_parts = (if text_parts = []
                        then let text = py_join '' | '' (map py_str (filter truthy (map snd row)))
                             in if text \<noteq> [] then [text] else []
                        else text_parts)
      in py_join ''\<newline>'' text_parts)"

text \<open>A retrieved passage, a conversation turn (the dictionary key \<open>text\<close> is the field
  \<open>msg_text\<close>) and the attributes of the bot.\<close>

record passage =
  page_content :: string
  score :: real
  metadata :: row

record turn =
  role :: string
  msg_text :: string
  timestamp :: string

text \<open>
  The attribute \<open>retriever\<close> is assigned only when the sheets could not be loaded at
  construction (to a retriever or to \<open>None\<close>), and \<open>menu\<close> only by \<open>_refresh_sheets\<close>;
  reading an attribute that was never assigned raises \<open>AttributeError\<close>. A retriever maps
  the query to its documents or fails; each document yields its page content or fails
  when read with \<open>.get\<close>.
\<close>

datatype retriever_attr = Unset | RNone | Retriever "string \<Rightarrow> exn + (exn + string) list"

record bot =
  chat_history :: "cell \<Rightarrow> turn list option"
  use_sheet :: bool
  retriever_k :: int
  qna_rows :: "row list"
  dos_donts :: "row list"
  campaigns :: "row list"
  menu :: "row list option"
  client_rows :: "row list"
  retriever :: retriever_attr

text \<open>
  \<open>list.sort(key=..., reverse=True)\<close> is a stable sort in descending key order: elements with
  equal keys keep their original order. \<open>xs[:k]\<close> takes the first \<open>k\<close> elements, and for a
  negative \<open>k\<close> all but the last \<open>-k\<close>.
\<close>

definition py_sort_desc :: "('a \<Rightarrow> real) \<Rightarrow> 'a list \<Rightarrow> 'a list" where
  "py_sort_desc key xs = sort_key (\<lambda>x. - key x) xs"

definition py_slice_to :: "'a list \<Rightarrow> int \<Rightarrow> 'a list" where
  "py_slice_to xs k = (if 0 \<le> k then take (nat k) xs else take (length xs - nat (- k)) xs)"

text \<open>\<open>ConciergeBot._retrieve_from_sheets\<close>; \<open>k_or_default\<close> is \<open>k or self.retriever_k\<close>.\<close>

definition k_or_default :: "bot \<Rightarrow> int option \<Rightarrow> int" where
  "k_or_default self k = (case k of None \<Rightarrow> retriever_k self
                          | Some n \<Rightarrow> if n \<noteq> 0 then n else retriever_k self)"

definition scored_results :: "bot \<Rightarrow> string \<Rightarrow> (real \<times> string \<times> row) list" where
  "scored_results self query =
     map (\<lambda>row. (score_doc (row_to_doc_text row) query, row_to_doc_text row, row)) (qna_rows self)"

definition to_passage :: "real \<times> string \<times> row \<Rightarrow> passage" where
  "to_passage t = (case t of (s, doc_text, row) \<Rightarrow>
     \<lparr>page_content = doc_text, score = s, metadata = row\<rparr>)"

definition retrieve_from_sheets :: "bot \<Rightarrow> string \<Rightarrow> int option \<Rightarrow> passage list" where
  "retrieve_from_sheets self query k =
     (let k = k_or_default self k
      in if qna_rows self = [] then []
         else let selected = py_slice_to (py_sort_desc fst (scored_results self query)) k
              in map to_passage selected)"

text \<open>A bot after a successful refresh, used for the concrete evaluations below.\<close>

definition example_bot :: bot where
  "example_bot =
     \<lparr>chat_history = Map.empty, use_sheet = True, retriever_k = 5,
      qna_rows = [[(''question'', CStr ''Spa''), (''answer'', CStr ''9am'')],
                  [(''question'', CStr ''Pool''), (''answer'', CStr ''Open'')]],
      dos_donts = [[(''do'', CStr ''Greet the guest''), (''dont'', CStr ''Argue'')]],
      campaigns = [[(''Name'', CStr ''Monsoon offer''), (''Description'', CStr ''20% off'')]],
      menu = Some [[(''Type'', CStr ''Drink''), (''Item'', CStr ''Masala chai''), (''Price'', CNum 120)]],
      client_rows = [[(''Email'', CStr ''a@x.com''), (''Workfow Stage'', CStr ''Confirmed''),
                      (''Id Link'', CStr ''https://id.example/1'')]],
      retriever = Unset\<rparr>"

section \<open>Prompt composer\<close>

text \<open>The four pictographs of the prompt, as their UTF-8 bytes.\<close>

definition clipboard_emoji :: string where
  "clipboard_emoji = [CHR 0xF0, CHR 0x9F, CHR 0x93, CHR 0x8B]"

definition megaphone_emoji :: string where
  "megaphone_emoji = [CHR 0xF0, CHR 0x9F, CHR 0x93, CHR 0xA3]"

definition check_emoji :: string where
  "check_emoji = [CHR 0xE2, CHR 0x9C, CHR 0x85]"

definition cross_emoji :: string where
  "cross_emoji = [CHR 0xE2, CHR 0x9D, CHR 0x8C]"

text \<open>
  The agent name: \<open>data/agents.json\<close> is an argument, \<open>None\<close> when the file is missing or
  cannot be read, else its list of agents. The name is formatted with \<open>str\<close> in the prompt.
\<close>

fun agents_loop :: "row list \<Rightarrow> cell \<Rightarrow> cell" where
  "agents_loop [] agent_name = agent_name"
| "agents_loop (agent # agents) agent_name =
     agents_loop agents
       (if row_get agent ''Name'' = CStr ''Front Desk''
        then (case map_of agent ''agent_name'' of None \<Rightarrow> agent_name | Some v \<Rightarrow> v)
        else agent_name)"

definition agent_name_of :: "row list option \<Rightarrow> cell" where
  "agent_name_of agents_file =
     (case agents_file of
        None \<Rightarrow> CStr ''AI Assistant''
      | Some agents \<Rightarrow> agents_loop agents (CStr ''AI Assistant''))"

text \<open>\<open>ConciergeBot._build_prompt\<close>: the rules, campaigns, menu and history sections, then
  the prompt of the branch that the policy state selects.\<close>

fun rules_loop :: "row list \<Rightarrow> string \<Rightarrow> string" where
  "rules_loop [] rules_text = rules_text"
| "rules_loop (entry # entries) rules_text =
     (let do_text = py_strip (py_str (py_or (row_get entry ''do'') (CStr '''')));
          dont_text = py_strip (py_str (py_or (row_get entry ''dont'') (CStr '''')));
          rules_text = (if do_text \<noteq> []
                        then rules_text @ ''- '' @ check_emoji @ '' Do: '' @ do_text @ ''\<newline>''
                        else rules_text);
          rules_text = (if dont_text \<noteq> []
                        then rules_text @ ''- '' @ cross_emoji @ '' Don't: '' @ dont_text @ ''\<newline>''
                        else rules_text)
      in rules_loop entries rules_text)"

definition rules_text_of :: "bot \<Rightarrow> string" where
  "rules_text_of self =
     (if dos_donts self \<noteq> []
      then rules_loop (dos_donts self)
             (''\<newline>\<newline>'' @ clipboard_emoji @ '' **Important Communication Rules:**\<newline>'')
      else [])"

text \<open>\<open>'- ' + desc\<close> raises \<open>TypeError\<close> unless \<open>desc\<close> is text.\<close>

definition py_add_str :: "string \<Rightarrow> cell \<Rightarrow> exn + string" where
  "py_add_str s v = (case v of CStr d \<Rightarrow> Inr (s @ d) | _ \<Rightarrow> Inl TypeError)"

definition campaign_line :: "row \<Rightarrow> exn + string" where
  "campaign_line campaign =
     (let title = py_or (row_get campaign ''Name'') (py_or (row_get campaign ''Title'') (CStr ''''));
          desc = py_or (row_get campaign ''Description'')
                   (py_or (row_get campaign ''Desc'') (CStr ''''))
      in if truthy title \<or> truthy desc
         then (if truthy desc
               then (case py_add_str ''- '' desc of
                       Inl e \<Rightarrow> Inl e
                     | Inr d \<Rightarrow> Inr (''- '' @ py_str title @ '' '' @ d @ ''\<newline>''))
               else Inr (''- '' @ py_str title @ '' '' @ ''\<newline>''))
         else Inr [])"

fun campaigns_loop :: "row list \<Rightarrow> string \<Rightarrow> exn + string" where
  "campaigns_loop [] campaigns_text = Inr campaigns_text"
| "campaigns_loop (campaign # rest) campaigns_text =
     (case campaign_line campaign of
        Inl e \<Rightarrow> Inl e
      | Inr line \<Rightarrow> campaigns_loop rest (campaigns_text @ line))"

definition campaigns_header :: string where
  "campaigns_header = ''\<newline>\<newline>'' @ megaphone_emoji @ '' **Active Campaigns / Promos:**\<newline>''"

definition campaigns_text_of :: "bot \<Rightarrow> bool \<Rightarrow> bool \<Rightarrow> exn + string" where
  "campaigns_text_of self is_booked is_verified =
     (if campaigns self \<noteq> [] \<and> (is_booked \<and> is_verified)
      then campaigns_loop (take 5 (campaigns self)) campaigns_header
      else Inr [])"

definition menu_line :: "row \<Rightarrow> exn + string" where
  "menu_line item =
     (let item_type = py_or (row_get item ''Type'') (CStr '''');
          name = py_or (row_get item ''Item'') (CStr '''');
          price = py_or (row_get item ''Price'') (CStr '''');
          desc = py_or (row_get item ''Description'') (CStr '''');
          price_part = (if truthy price then ''- '' @ py_str price else [])
      in if truthy desc
         then (case py_add_str ''- '' desc of
                 Inl e \<Rightarrow> Inl e
               | Inr d \<Rightarrow> Inr (''- '' @ py_str item_type @ '' '' @ py_str name @ '' '' @ price_part
                               @ '' '' @ d @ ''\<newline>''))
         else Inr (''- '' @ py_str item_type @ '' '' @ py_str name @ '' '' @ price_part
                   @ '' '' @ ''\<newline>''))"

fun menu_loop :: "row list \<Rightarrow> string \<Rightarrow> exn + string" where
  "menu_loop [] menu_text = Inr menu_text"
| "menu_loop (item # rest) menu_text =
     (case menu_line item of
        Inl e \<Rightarrow> Inl e
      | Inr line \<Rightarrow> menu_loop rest (menu_text @ line))"

definition menu_header :: string where
  "menu_header = ''\<newline>\<newline>'' @ clipboard_emoji @ '' **Menu / Services:**\<newline>''"

definition menu_text_of :: "bot \<Rightarrow> bool \<Rightarrow> bool \<Rightarrow> exn + string" where
  "menu_text_of self is_booked is_verified =
     (case menu self of
        None \<Rightarrow> Inl AttributeError
      | Some m \<Rightarrow>
          if m \<noteq> [] \<and> (is_booked \<and> is_verified) then menu_loop m menu_header else Inr [])"

definition history_line :: "turn \<Rightarrow> string" where
  "history_line msg =
     (if role msg = ''user'' then ''User'' else ''Assistant'') @ '': '' @ msg_text msg @ ''\<newline>''"

definition last_n :: "nat \<Rightarrow> 'a list \<Rightarrow> 'a list" where
  "last_n n xs = drop (length xs - n) xs"

definition chat_history_text_of :: "bot \<Rightarrow> cell option \<Rightarrow> string" where
  "chat_history_text_of self session_id =
     (case session_id of
        None \<Rightarrow> []
      | Some sid \<Rightarrow>
          (case chat_history self sid of
             None \<Rightarrow> []
           | Some history \<Rightarrow>
               if truthy sid
               then ''\<newline>Previous conversation context:\<newline>''
                    @ concat (map history_line (last_n 5 history))
               else []))"

definition preamble :: "cell \<Rightarrow> string" where
  "preamble agent_name =
     ''You are an AI agent named '' @ py_str agent_name
     @ '', a knowledgeable and polite concierge assistant at ILORA RETREATS. ''"

definition requirement_text :: string where
  "requirement_text =
     ''For in-room services, spa bookings, or amenity access, politely explain that a confirmed booking and ID verification are required.\<newline>\<newline>''"

definition handle_text :: string where
  "handle_text =
     ''Handle all in-room service requests directly and create service tickets for guest requests.\<newline>\<newline>''"

definition status_text :: "bool \<Rightarrow> string" where
  "status_text is_booked = (if \<not> is_booked then ''Not Booked'' else ''Booked but ID Not Verified'')"

definition build_prompt ::
  "bot \<Rightarrow> row list option \<Rightarrow> string \<Rightarrow> string \<Rightarrow> cell option \<Rightarrow> bool \<Rightarrow> bool \<Rightarrow> exn + string" where
  "build_prompt self agents_file hotel_data query session_id is_booked is_verified =
     (let agent_name = agent_name_of agents_file;
          rules_text = rules_text_of self
      in case campaigns_text_of self is_booked is_verified of
           Inl e \<Rightarrow> Inl e
         | Inr campaigns_text \<Rightarrow>
             (case menu_text_of self is_booked is_verified of
                Inl e \<Rightarrow> Inl e
              | Inr menu_text \<Rightarrow>
                  let chat_history_text = chat_history_text_of self session_id
                  in if \<not> is_booked \<or> \<not> is_verified
                     then Inr (preamble agent_name @ requirement_text
                               @ ''Status: '' @ status_text is_booked @ ''\<newline>\<newline>''
                               @ ''Hotel Data:\<newline>'' @ hotel_data @ ''\<newline>\<newline>''
                               @ chat_history_text @ ''\<newline>''
                               @ ''Guest Query: '' @ query @ ''\<newline>''
                               @ rules_text)
                     else Inr (preamble agent_name @ handle_text
                               @ ''Hotel Data:\<newline>'' @ hotel_data @ ''\<newline>\<newline>''
                               @ menu_text @ ''\<newline>\<newline>''
                               @ chat_history_text @ ''\<newline>''
                               @ ''Guest Query: '' @ query @ ''\<newline>''
                               @ rules_text @ campaigns_text)))"

subsection \<open>Description cells\<close>

text \<open>A description cell that the prompt can print: text, or an empty value.\<close>

definition desc_is_text :: "cell \<Rightarrow> bool" where
  "desc_is_text v = (case v of CStr d \<Rightarrow> True | CNum n \<Rightarrow> n = 0 | CNull \<Rightarrow> True)"

section \<open>Dialogue engine: \<open>ConciergeBot.ask\<close>\<close>

text \<open>
  What \<open>ask\<close> reads from outside the bot: the sheets web app (\<open>_fetch_sheet_data\<close>, which
  returns the rows of a sheet or raises), the clock (\<open>time.time()\<close> and the two readings of
  \<open>datetime.utcnow().isoformat()\<close>), the agents file and the completion capability
  (\<open>self.llm.invoke\<close>, which returns the content of the response or raises).
\<close>

record env =
  fetch_sheet_data :: "string \<Rightarrow> exn + row list"
  time_now :: real
  utcnow_user :: string
  utcnow_assistant :: string
  agents_file :: "row list option"
  llm_invoke :: "string \<Rightarrow> exn + string"

definition qna_sheet :: string where "qna_sheet = ''QnA_Manager''"

definition dos_sheet :: string where "dos_sheet = ''Dos and Donts''"

definition campaign_sheet :: string where "campaign_sheet = ''Campaigns_Manager''"

definition menu_sheet :: string where "menu_sheet = ''menu_manager''"

definition client_sheet :: string where "client_sheet = ''Client_workflow''"

definition process_dos :: "row \<Rightarrow> row" where
  "process_dos row =
     (let do_val = py_or (row_get row ''Do'') (py_or (row_get row ''do'')
                     (py_or (row_get row ''Do's'') (py_or (row_get row ''Do_s'')
                     (py_or (row_get row ''Do / Don't'') (CStr '''')))));
          dont_val = py_or (row_get row ''Don't'') (py_or (row_get row ''Dont'')
                     (py_or (row_get row ''dont'') (py_or (row_get row ''Don'ts'')
                     (py_or (row_get row ''Dont_s'') (CStr '''')))))
      in [(''do'', CStr (py_strip (py_str do_val))), (''dont'', CStr (py_strip (py_str dont_val)))])"

text \<open>
  \<open>_refresh_sheets\<close> assigns the attributes one after the other; when a fetch raises, the
  attributes assigned so far keep their new values. The result is the exception, if any,
  and the bot.
\<close>

definition refresh_sheets :: "env \<Rightarrow> bot \<Rightarrow> exn option \<times> bot" where
  "refresh_sheets env self =
     (case fetch_sheet_data env qna_sheet of
        Inl e \<Rightarrow> (Some e, self)
      | Inr qna \<Rightarrow>
          let self = self\<lparr>qna_rows := qna\<rparr>
          in case fetch_sheet_data env dos_sheet of
               Inl e \<Rightarrow> (Some e, self)
             | Inr raw_dos \<Rightarrow>
                 let self = self\<lparr>dos_donts := map process_dos raw_dos\<rparr>
                 in case fetch_sheet_data env campaign_sheet of
                      Inl e \<Rightarrow> (Some e, self)
                    | Inr cs \<Rightarrow>
                        let self = self\<lparr>campaigns := cs\<rparr>
                        in case fetch_sheet_data env menu_sheet of
                             Inl e \<Rightarrow> (Some e, self)
                           | Inr m \<Rightarrow>
                               let self = self\<lparr>menu := Some m\<rparr>
                               in case fetch_sheet_data env client_sheet of
                                    Inl e \<Rightarrow> (Some e, self)
                                  | Inr cl \<Rightarrow> (None, self\<lparr>client_rows := cl\<rparr>))"

definition apology :: string where
  "apology = ''I apologize, but I encountered an issue while processing your request. Please try again or contact our front desk for assistance.''"

definition user_turn :: "env \<Rightarrow> string \<Rightarrow> turn" where
  "user_turn env query = \<lparr>role = ''user'', msg_text = query, timestamp = utcnow_user env\<rparr>"

definition assistant_turn :: "env \<Rightarrow> string \<Rightarrow> turn" where
  "assistant_turn env final_answer =
     \<lparr>role = ''assistant'', msg_text = final_answer, timestamp = utcnow_assistant env\<rparr>"

definition history_of :: "bot \<Rightarrow> cell \<Rightarrow> turn list" where
  "history_of self key = (case chat_history self key of None \<Rightarrow> [] | Some h \<Rightarrow> h)"

text \<open>\<open>"\n\n".join(d.get('page_content', '') for d in docs)\<close>: the first failing read raises.\<close>

fun page_contents :: "(exn + string) list \<Rightarrow> exn + string list" where
  "page_contents [] = Inr []"
| "page_contents (d # ds) =
     (case d of
        Inl e \<Rightarrow> Inl e
      | Inr c \<Rightarrow> (case page_contents ds of Inl e \<Rightarrow> Inl e | Inr cs \<Rightarrow> Inr (c # cs)))"

text \<open>
  The part of \<open>ask\<close> before the completion call. Every exception raised there is caught by
  the outer handler, which returns the apology: the result is \<open>Inl\<close> of the bot as the
  exception left it, or \<open>Inr\<close> of the history key, the composed prompt and the bot.
\<close>

definition ask_prepare :: "env \<Rightarrow> bot \<Rightarrow> string \<Rightarrow> string option \<Rightarrow> bot + cell \<times> string \<times> bot" where
  "ask_prepare env self query user_identifier =
     (let self = (if use_sheet self then snd (refresh_sheets env self) else self)
      in case (case user_identifier of
                 None \<Rightarrow> Inr None
               | Some u \<Rightarrow> if u \<noteq> [] then find_client_row (client_rows self) u else Inr None) of
           Inl e \<Rightarrow> Inl self
         | Inr client_row \<Rightarrow>
             let chat_history_key = get_chat_history_key (time_now env) client_row user_identifier;
                 self = self\<lparr>chat_history := (chat_history self)
                          (chat_history_key \<mapsto> history_of self chat_history_key @ [user_turn env query])\<rparr>;
                 has_row = (case client_row of None \<Rightarrow> False | Some r \<Rightarrow> r \<noteq> []);
                 is_booked = (if has_row then is_user_booked client_row else False);
                 id_verified = (if has_row then is_id_verified client_row else False);
                 docs = (if use_sheet self
                         then map (\<lambda>d. Inr (page_content d))
                                (retrieve_from_sheets self query (Some (retriever_k self)))
                         else [])
             in case (if docs = []
                      then (case retriever self of
                              Unset \<Rightarrow> Inl AttributeError
                            | RNone \<Rightarrow> Inr docs
                            | Retriever invoke \<Rightarrow>
                                (case invoke query of Inl e \<Rightarrow> Inr docs | Inr ds \<Rightarrow> Inr ds))
                      else Inr docs) of
                  Inl e \<Rightarrow> Inl self
                | Inr docs \<Rightarrow>
                    (case page_contents docs of
                       Inl e \<Rightarrow> Inl self
                     | Inr contents \<Rightarrow>
                         (case build_prompt self (agents_file env)
                                 (py_join ''\<newline>\<newline>'' contents) query
                                 (Some chat_history_key) is_booked id_verified of
                            Inl e \<Rightarrow> Inl self
                          | Inr system_prompt \<Rightarrow> Inr (chat_history_key, system_prompt, self))))"

definition ask :: "env \<Rightarrow> bot \<Rightarrow> string \<Rightarrow> string option \<Rightarrow> string \<times> bot" where
  "ask env self query user_identifier =
     (case ask_prepare env self query user_identifier of
        Inl self \<Rightarrow> (apology, self)
      | Inr (chat_history_key, system_prompt, self) \<Rightarrow>
          (case llm_invoke env system_prompt of
             Inl e \<Rightarrow> (apology, self)
           | Inr content \<Rightarrow>
               let final_answer = py_strip content;
                   history = history_of self chat_history_key @ [assistant_turn env final_answer];
                   history = (if 50 < length history then last_n 50 history else history)
               in (final_answer,
                   self\<lparr>chat_history := (chat_history self)(chat_history_key \<mapsto> history)\<rparr>)))"

section \<open>The example bot at work\<close>

text \<open>
  The sheets that produce the example bot, and an environment around it: the completion
  capability is the argument, so that the same turn can be run with a completion that
  answers and with one that raises.
\<close>

definition example_sheets :: "string \<Rightarrow> exn + row list" where
  "example_sheets sheet_name =
     (if sheet_name = qna_sheet then Inr (qna_rows example_bot)
      else if sheet_name = dos_sheet
        then Inr [[(''Do'', CStr '' Greet the guest''), (''Don't'', CStr ''Argue '')]]
      else if sheet_name = campaign_sheet then Inr (campaigns example_bot)
      else if sheet_name = menu_sheet
        then Inr [[(''Type'', CStr ''Drink''), (''Item'', CStr ''Masala chai''), (''Price'', CNum 120)]]
      else if sheet_name = client_sheet then Inr (client_rows example_bot)
      else Inl RuntimeError)"

definition example_env :: "(string \<Rightarrow> exn + string) \<Rightarrow> env" where
  "example_env llm =
     \<lparr>fetch_sheet_data = example_sheets, time_now = 1700000000.25,
      utcnow_user = ''2023-11-14T22:13:20.250000'',
      utcnow_assistant = ''2023-11-14T22:13:21.500000'',
      agents_file = None, llm_invoke = llm\<rparr>"

definition llm_down :: "string \<Rightarrow> exn + string" where
  "llm_down prompt = Inl ExternalError"



chapter \<open>Properties\<close>

section \<open>Facts about the Python values\<close>

lemma startswith_iff: "startswith s p \<longleftrightarrow> (\<exists>b. s = p @ b)"
  by (induction s p rule: startswith.induct) auto

lemma py_in_iff: "py_in p s \<longleftrightarrow> (\<exists>a b. s = a @ p @ b)"
proof (induction s)
  case Nil
  then show ?case by auto
next
  case (Cons c cs)
  show ?case
  proof
    assume "py_in p (c # cs)"
    then consider "startswith (c # cs) p" | "py_in p cs" by auto
    then show "\<exists>a b. c # cs = a @ p @ b"
    proof cases
      case 1
      then obtain b where "c # cs = p @ b" by (auto simp: startswith_iff)
      then have "c # cs = [] @ p @ b" by simp
      then show ?thesis by blast
    next
      case 2
      then obtain a b where "cs = a @ p @ b" using Cons.IH by blast
      then have "c # cs = (c # a) @ p @ b" by simp
      then show ?thesis by blast
    qed
  next
    assume "\<exists>a b. c # cs = a @ p @ b"
    then obtain a b where ab: "c # cs = a @ p @ b" by blast
    show "py_in p (c # cs)"
    proof (cases a)
      case Nil
      with ab have "startswith (c # cs) p" by (auto simp: startswith_iff)
      then show ?thesis by simp
    next
      case (Cons x xs)
      with ab have "cs = xs @ p @ b" by simp
      then have "py_in p cs" using Cons.IH by blast
      then show ?thesis by simp
    qed
  qed
qed

lemma digit_cases:
  "d < 10 \<Longrightarrow> d = 0 \<or> d = 1 \<or> d = 2 \<or> d = 3 \<or> d = 4 \<or> d = 5 \<or> d = 6 \<or> d = 7 \<or> d = 8 \<or> d = (9::nat)"
  by arith

lemma digit_char_in: "d < 10 \<Longrightarrow> digit_char d \<in> set ''0123456789''"
  using digit_cases [of d] by (auto simp: digit_char_def)

lemma digit_char_inj: "a < 10 \<Longrightarrow> b < 10 \<Longrightarrow> digit_char a = digit_char b \<Longrightarrow> a = b"
  using digit_cases [of a] digit_cases [of b] by (auto simp: digit_char_def)

lemma str_nat_digits: "set (str_nat n) \<subseteq> set ''0123456789''"
proof (induction n rule: str_nat.induct)
  case (1 n)
  show ?case
  proof (cases "n < 10")
    case True
    then show ?thesis using digit_char_in [of n] by (subst str_nat.simps) simp
  next
    case False
    have "n mod 10 < 10" by simp
    then have "digit_char (n mod 10) \<in> set ''0123456789''" by (rule digit_char_in)
    with False 1 show ?thesis by (subst str_nat.simps) simp
  qed
qed

lemma str_nat_nonempty: "str_nat n \<noteq> []"
  by (subst str_nat.simps) simp

lemma str_nat_inj: "str_nat n = str_nat m \<Longrightarrow> n = m"
proof (induction n arbitrary: m rule: str_nat.induct)
  case (1 n)
  show ?case
  proof (cases "n < 10")
    case n: True
    show ?thesis
    proof (cases "m < 10")
      case True
      with n 1(2) show ?thesis
        by (metis digit_char_inj list.inject str_nat.simps)
    next
      case False
      then have "str_nat m = str_nat (m div 10) @ [digit_char (m mod 10)]"
        by (subst str_nat.simps) simp
      moreover have "str_nat n = [digit_char n]" using n by (subst str_nat.simps) simp
      ultimately have "str_nat (m div 10) = []" using 1(2) by (metis append_eq_Cons_conv append_is_Nil_conv list.inject not_Cons_self2 snoc_eq_iff_butlast butlast.simps(2))
      then show ?thesis using str_nat_nonempty by blast
    qed
  next
    case n: False
    then have en: "str_nat n = str_nat (n div 10) @ [digit_char (n mod 10)]"
      by (subst str_nat.simps) simp
    show ?thesis
    proof (cases "m < 10")
      case True
      then have "str_nat m = [digit_char m]" by (subst str_nat.simps) simp
      with en 1(2) have "str_nat (n div 10) = []" by simp
      then show ?thesis using str_nat_nonempty by blast
    next
      case False
      then have em: "str_nat m = str_nat (m div 10) @ [digit_char (m mod 10)]"
        by (subst str_nat.simps) simp
      from en em 1(2) have a: "str_nat (n div 10) = str_nat (m div 10)"
        and b: "digit_char (n mod 10) = digit_char (m mod 10)" by simp_all
      from a have "n div 10 = m div 10" using 1(1) n by blast
      moreover from b have "n mod 10 = m mod 10" by (intro digit_char_inj) simp_all
      ultimately show ?thesis by (metis div_mult_mod_eq)
    qed
  qed
qed

lemma str_int_inj: "str_int i = str_int j \<Longrightarrow> i = j"
proof -
  assume e: "str_int i = str_int j"
  have nm: "\<And>n m. CHR ''-'' # str_nat n \<noteq> str_nat m"
  proof
    fix n m assume "CHR ''-'' # str_nat n = str_nat m"
    then have "CHR ''-'' \<in> set (str_nat m)" by (metis list.set_intros(1))
    then show False using str_nat_digits [of m] by auto
  qed
  show "i = j"
  proof (cases "i < 0"; cases "j < 0")
    assume "i < 0" "j < 0"
    with e have "str_nat (nat (- i)) = str_nat (nat (- j))" by (simp add: str_int_def)
    then have "nat (- i) = nat (- j)" by (rule str_nat_inj)
    with \<open>i < 0\<close> \<open>j < 0\<close> show ?thesis by simp
  next
    assume "i < 0" "\<not> j < 0"
    with e nm show ?thesis by (simp add: str_int_def)
  next
    assume "\<not> i < 0" "j < 0"
    with e nm [of "nat (- j)" "nat i"] show ?thesis by (simp add: str_int_def)
  next
    assume "\<not> i < 0" "\<not> j < 0"
    with e have "str_nat (nat i) = str_nat (nat j)" by (simp add: str_int_def)
    then have "nat i = nat j" by (rule str_nat_inj)
    with \<open>\<not> i < 0\<close> \<open>\<not> j < 0\<close> show ?thesis by simp
  qed
qed

lemmas string_evals = py_strip_def py_lower_def lower_char_def is_upper_def py_isspace_def

lemmas row_evals = row_get_def py_or_def

section \<open>Policy evaluator: what the code decides\<close>

lemma is_user_booked_None: "is_user_booked None = False"
  by (simp add: is_user_booked_def)

lemma is_id_verified_None: "is_id_verified None = False"
  by (simp add: is_id_verified_def)

text \<open>
  The booking identifier and the room assignment are compared with the placeholder
  spellings as they stand in the cell, after trimming only.
\<close>

lemma is_user_booked_iff:
  "is_user_booked (Some r) \<longleftrightarrow>
     r \<noteq> [] \<and> (workflow_stage r = ''confirmed'' \<or> booking_id_of r \<notin> set placeholders
               \<or> room_of r \<notin> set placeholders)"
  by (auto simp: is_user_booked_def placeholders_def)

lemma is_id_verified_iff:
  "is_id_verified (Some r) \<longleftrightarrow>
     truthy (row_get r ''Id Link'') \<and>
     (py_lower (py_strip (py_str (row_get r ''Id Link''))) = ''done''
      \<or> (\<exists>a b. py_lower (py_strip (py_str (row_get r ''Id Link''))) = a @ ''http'' @ b))"
  by (cases "r = []") (auto simp: is_id_verified_def Let_def py_in_iff row_get_def)

text \<open>
  C3. The claim: \<open>is_booked\<close> holds exactly when the workflow stage is "confirmed" (any
  casing), or the booking identifier or the room assignment is non-empty and is not one of
  the placeholders "-", "none", "", "n/a" compared case-insensitively. The code lowers the
  workflow stage but not the booking identifier or the room assignment, so a guest whose
  stage is "Pending" and whose booking identifier is the placeholder "N/A" is reported as
  booked, where the claim says not booked.
\<close>

theorem is_user_booked_uppercase_placeholder:
  "is_user_booked (Some [(''Email'', CStr ''a@x.com''), (''Workfow Stage'', CStr ''Pending''),
      (''Booking Id'', CStr ''N/A''), (''Room Alloted'', CStr ''None'')]) = True
   \<and> spec_is_booked (Some [(''Email'', CStr ''a@x.com''), (''Workfow Stage'', CStr ''Pending''),
      (''Booking Id'', CStr ''N/A''), (''Room Alloted'', CStr ''None'')]) = False"
  by (simp add: is_user_booked_def spec_is_booked_def workflow_stage_def booking_id_of_def
      room_of_def placeholders_def row_evals string_evals)

section \<open>Identity resolver: the first matching row\<close>






section \<open>The history key\<close>

text \<open>
  C7, as the claim states it, fails for anonymous calls: the ephemeral key is built from
  the clock truncated to whole seconds, so two calls without a client record and without
  an identifier that read the clock within the same second get the same key.
\<close>

theorem session_keys_collide_within_a_second:
  "get_chat_history_key 1700000000.25 None None = get_chat_history_key 1700000000.75 None None"
  by (simp add: get_chat_history_key_def py_int_def)

text \<open>
  C7, amended. Two calls whose client rows carry the same non-empty email get that email
  as their key, whatever the identifier and the clock. Two calls made with no client
  record and no identifier get the same ephemeral key exactly when their clock readings
  fall in the same whole second, and different keys otherwise.
\<close>

theorem history_key_by_email_and_by_second:
  "(r1 \<noteq> [] \<and> r2 \<noteq> [] \<and> truthy (row_get r1 ''Email'')
      \<and> row_get r2 ''Email'' = row_get r1 ''Email''
      \<longrightarrow> get_chat_history_key n1 (Some r1) u1 = row_get r1 ''Email''
        \<and> get_chat_history_key n2 (Some r2) u2 = row_get r1 ''Email'')
   \<and> (get_chat_history_key n1 None None = get_chat_history_key n2 None None
        \<longleftrightarrow> py_int n1 = py_int n2)"
  by (auto simp: get_chat_history_key_def dest: str_int_inj)

theorem history_key_by_email_and_by_second_witness:
  "get_chat_history_key 1700000000.25 (Some [(''Email'', CStr ''a@x.com'')]) None
     = CStr ''a@x.com''
   \<and> get_chat_history_key 1700000300
        (Some [(''Client Id'', CNum 7), (''Email'', CStr ''a@x.com'')]) (Some ''a@x.com'')
     = CStr ''a@x.com''
   \<and> get_chat_history_key 1700000000.25 None None \<noteq> get_chat_history_key 1700000300 None None"
  using history_key_by_email_and_by_second
    [of "[(''Email'', CStr ''a@x.com'')]"
        "[(''Client Id'', CNum 7), (''Email'', CStr ''a@x.com'')]"
        "1700000000.25" None "1700000300" "Some ''a@x.com''"]
  by (simp add: row_get_def py_int_def)

section \<open>The booking-form directive\<close>

text \<open>
  C9, as the claim states it, fails on both endpoints: \<open>main_new.py\<close> looks at the
  keywords only, so a payment request without a booking keyword leaves the directive
  false; \<open>main.py\<close> looks at the intent only, so a message with a booking keyword and
  another intent leaves it false.
\<close>

theorem show_booking_form_is_not_the_disjunction:
  "main_new_show_booking_form ''I would like to pay my bill'' ''payment_request'' = False
   \<and> spec_show_booking_form ''I would like to pay my bill'' ''payment_request'' = True
   \<and> main_show_booking_form ''Can I book a spa session?'' ''book_addon_spa'' = False
   \<and> spec_show_booking_form ''Can I book a spa session?'' ''book_addon_spa'' = True"
  by (simp add: main_new_show_booking_form_def main_show_booking_form_def
      spec_show_booking_form_def booking_keywords_def py_lower_def lower_char_def is_upper_def)

text \<open>
  C9, amended. In \<open>main_new.py\<close> the directive is true exactly when the lower-cased
  message contains one of the booking keywords, whatever the intent; in \<open>main.py\<close> it is
  true exactly when the intent is "booking_request" or "payment_request", whatever the
  message.
\<close>

theorem show_booking_form_per_endpoint:
  "main_new_show_booking_form message intent
     = (\<exists>kw a b. kw \<in> set booking_keywords \<and> py_lower message = a @ kw @ b)
   \<and> main_show_booking_form message intent
     = (intent = ''booking_request'' \<or> intent = ''payment_request'')"
  by (auto simp: main_new_show_booking_form_def main_show_booking_form_def list_ex_iff
      py_in_iff)

section \<open>Sequence similarity: the ratio lies between 0 and 1\<close>

lemma block_sizes_bound:
  "alo \<le> ahi \<Longrightarrow> blo \<le> bhi \<Longrightarrow>
   block_sizes (matching_blocks a b alo ahi blo bhi) \<le> ahi - alo
   \<and> block_sizes (matching_blocks a b alo ahi blo bhi) \<le> bhi - blo"
proof (induction a b alo ahi blo bhi rule: matching_blocks.induct)
  case (1 a b alo ahi blo bhi)
  obtain i j k where f: "find_longest_match a b alo ahi blo bhi = (i, j, k)"
    by (metis prod_cases3)
  note bd = find_longest_match_bounds [OF f]
  show ?case
  proof (cases "k = 0")
    case True
    with f show ?thesis by (subst (1 2) matching_blocks.simps) (simp add: block_sizes_def)
  next
    case False
    define R where "R = (if i + k < ahi \<and> j + k < bhi
        then matching_blocks a b (i + k) ahi (j + k) bhi else [])"
    define L where "L = (if alo < i \<and> blo < j then matching_blocks a b alo i blo j else [])"
    have mb: "matching_blocks a b alo ahi blo bhi = (i, j, k) # R @ L"
      using f False by (subst matching_blocks.simps) (simp add: R_def L_def)
    have r: "block_sizes R \<le> ahi - (i + k) \<and> block_sizes R \<le> bhi - (j + k)"
    proof (cases "i + k < ahi \<and> j + k < bhi")
      case True
      then show ?thesis using "1.IH"(1) [OF f [symmetric] refl False] by (simp add: R_def)
    next
      case False
      then have "R = []" unfolding R_def by (rule if_not_P)
      then show ?thesis by (simp add: block_sizes_def)
    qed
    have l: "block_sizes L \<le> i - alo \<and> block_sizes L \<le> j - blo"
    proof (cases "alo < i \<and> blo < j")
      case True
      then show ?thesis using "1.IH"(2) [OF f [symmetric] refl False] by (simp add: L_def)
    next
      case False
      then have "L = []" unfolding L_def by (rule if_not_P)
      then show ?thesis by (simp add: block_sizes_def)
    qed
    have "block_sizes ((i, j, k) # R @ L) = k + block_sizes R + block_sizes L"
      by (simp add: block_sizes_def)
    with r l bd False show ?thesis unfolding mb by auto
  qed
qed

lemma SequenceMatcher_ratio_bounds: "0 \<le> SequenceMatcher_ratio a b \<and> SequenceMatcher_ratio a b \<le> 1"
proof -
  define m where "m = block_sizes (matching_blocks a b 0 (length a) 0 (length b))"
  have "m \<le> length a" and "m \<le> length b"
    using block_sizes_bound [of 0 "length a" 0 "length b" a b] by (simp_all add: m_def)
  then have "2 * m \<le> length a + length b" by simp
  then have "2 * real m \<le> real (length a + length b)" by (metis of_nat_le_iff of_nat_mult of_nat_numeral)
  then show ?thesis
    unfolding SequenceMatcher_ratio_def calculate_ratio_def m_def [symmetric]
    by (auto simp: divide_le_eq)
qed


text \<open>The values that Python prints for these inputs.\<close>

lemmas difflib_evals = SequenceMatcher_ratio_def calculate_ratio_def block_sizes_def
  matching_blocks.simps find_longest_match_def extend_left.simps extend_right.simps
  b2j_def popular_def indices_of_def Let_def

lemma ratio_abcd: "SequenceMatcher_ratio ''abcd'' ''bcde'' = 3 / 4"
  by (simp add: difflib_evals)

lemma ratio_abxcd: "SequenceMatcher_ratio ''abxcd'' ''abcd'' = 8 / 9"
  by (simp add: difflib_evals)

lemma matching_blocks_abcab: "matching_blocks ''abcab'' ''cabab'' 0 (length ''abcab'') 0 (length ''cabab'') = [(2, 0, 3)]"
  by (simp add: difflib_evals)

section \<open>The relevance score\<close>


lemmas norm_evals = normalize_text_def sub_non_alnum_def is_lower_alnum_def



lemma score_doc_eq:
  "score_doc doc_text query =
     (if set (py_split (normalize_text query)) = {} \<or> set (py_split (normalize_text doc_text)) = {}
      then 0
      else 0.65 * (real (card (set (py_split (normalize_text query))
                               \<inter> set (py_split (normalize_text doc_text))))
                   / real (min (card (set (py_split (normalize_text query))))
                               (card (set (py_split (normalize_text doc_text))))))
           + 0.35 * SequenceMatcher_ratio (normalize_text query) (normalize_text doc_text))"
proof -
  have e: "py_split (normalize_text []) = []"
    by (simp add: normalize_text_def py_split.simps)
  show ?thesis
    by (cases "query = []"; cases "doc_text = []") (simp_all add: score_doc_def Let_def e)
qed

lemma overlap_bounds:
  assumes "finite q" "finite d" "q \<noteq> {}" "d \<noteq> {}"
  shows "0 \<le> real (card (q \<inter> d)) / real (min (card q) (card d))
       \<and> real (card (q \<inter> d)) / real (min (card q) (card d)) \<le> 1"
proof -
  have "card (q \<inter> d) \<le> card q" "card (q \<inter> d) \<le> card d"
    using assms by (simp_all add: card_mono)
  then have le: "card (q \<inter> d) \<le> min (card q) (card d)" by simp
  have pos: "0 < min (card q) (card d)" using assms by (simp add: card_gt_0_iff)
  from le pos show ?thesis by (simp add: divide_le_eq)
qed



text \<open>
  C10. For every query and document the hybrid relevance score lies in the closed interval
  from 0 to 1: the token overlap ratio and the sequence similarity ratio both do, and the
  weights 0.65 and 0.35 add up to 1.
\<close>

theorem score_doc_in_unit_interval: "0 \<le> score_doc doc_text query \<and> score_doc doc_text query \<le> 1"
proof -
  let ?q = "set (py_split (normalize_text query))"
  let ?d = "set (py_split (normalize_text doc_text))"
  show ?thesis
  proof (cases "?q = {} \<or> ?d = {}")
    case True
    then show ?thesis by (subst (1 2) score_doc_eq) simp
  next
    case False
    define ov where "ov = real (card (?q \<inter> ?d)) / real (min (card ?q) (card ?d))"
    define r where "r = SequenceMatcher_ratio (normalize_text query) (normalize_text doc_text)"
    have ov: "0 \<le> ov \<and> ov \<le> 1"
      unfolding ov_def using False by (intro overlap_bounds) simp_all
    have r: "0 \<le> r \<and> r \<le> 1"
      unfolding r_def by (rule SequenceMatcher_ratio_bounds)
    have "score_doc doc_text query = 0.65 * ov + 0.35 * r"
      using False by (subst score_doc_eq) (simp add: ov_def r_def)
    with ov r show ?thesis by simp
  qed
qed

section \<open>Sheet retrieval\<close>






lemma doc_text_spa: "row_to_doc_text [(''question'', CStr ''Spa''), (''answer'', CStr ''9am'')] = ''Q: Spa\<newline>A: 9am''"
  by (simp add: row_to_doc_text_def row_get_def)

lemma doc_text_pool: "row_to_doc_text [(''question'', CStr ''Pool''), (''answer'', CStr ''Open'')] = ''Q: Pool\<newline>A: Open''"
  by (simp add: row_to_doc_text_def row_get_def)

lemma norm_query_pool: "normalize_text ''pool'' = ''pool''" by (simp add: norm_evals string_evals)

lemma norm_doc_spa: "normalize_text ''Q: Spa\<newline>A: 9am'' = ''q spa a 9am''" by (simp add: norm_evals string_evals)

lemma norm_doc_pool: "normalize_text ''Q: Pool\<newline>A: Open'' = ''q pool a open''" by (simp add: norm_evals string_evals)

lemma split_query_pool: "py_split ''pool'' = [''pool'']" by (simp add: py_split.simps py_isspace_def)

lemma split_doc_spa: "py_split ''q spa a 9am'' = [''q'', ''spa'', ''a'', ''9am'']" by (simp add: py_split.simps py_isspace_def)

lemma split_doc_pool: "py_split ''q pool a open'' = [''q'', ''pool'', ''a'', ''open'']" by (simp add: py_split.simps py_isspace_def)

lemma ratio_spa: "SequenceMatcher_ratio ''pool'' ''q spa a 9am'' = 2 / 15"
  by (simp add: difflib_evals)

lemma ratio_pool: "SequenceMatcher_ratio ''pool'' ''q pool a open'' = 8 / 17"
  by (simp add: difflib_evals)

lemma score_spa: "score_doc ''Q: Spa\<newline>A: 9am'' ''pool'' = 7 / 150"
  by (simp add: score_doc_def Let_def norm_query_pool norm_doc_spa split_query_pool split_doc_spa ratio_spa)

lemma score_pool: "score_doc ''Q: Pool\<newline>A: Open'' ''pool'' = 277 / 340"
  by (simp add: score_doc_def Let_def norm_query_pool norm_doc_pool split_query_pool split_doc_pool ratio_pool)

text \<open>For the query "pool" the second row scores 277/340 and the first 7/150.\<close>

lemma retrieve_from_sheets_example: "retrieve_from_sheets example_bot ''pool'' (Some 1)
   = [\<lparr>page_content = ''Q: Pool\<newline>A: Open'', score = 277 / 340,
       metadata = [(''question'', CStr ''Pool''), (''answer'', CStr ''Open'')]\<rparr>]"
  by (simp add: retrieve_from_sheets_def k_or_default_def example_bot_def py_slice_to_def
      scored_results_def py_sort_desc_def to_passage_def doc_text_spa doc_text_pool score_spa score_pool)




section \<open>The prompt and the turn: auxiliary facts\<close>



lemma menu_line_returns:
  "desc_is_text (row_get item ''Description'') \<Longrightarrow> \<exists>line. menu_line item = Inr line"
proof -
  define desc where "desc = py_or (row_get item ''Description'') (CStr '''')"
  assume "desc_is_text (row_get item ''Description'')"
  then have "desc_is_text desc" by (auto simp: desc_def py_or_def desc_is_text_def)
  then have "\<not> truthy desc \<or> (\<exists>d. py_add_str ''- '' desc = Inr d)"
    by (cases desc) (auto simp: desc_is_text_def py_add_str_def)
  then show ?thesis
    unfolding menu_line_def desc_def [symmetric] Let_def by auto
qed

lemma campaign_line_returns:
  "desc_is_text (py_or (row_get c ''Description'') (py_or (row_get c ''Desc'') (CStr '''')))
     \<Longrightarrow> \<exists>line. campaign_line c = Inr line"
proof -
  define desc where
    "desc = py_or (row_get c ''Description'') (py_or (row_get c ''Desc'') (CStr ''''))"
  assume "desc_is_text (py_or (row_get c ''Description'') (py_or (row_get c ''Desc'') (CStr '''')))"
  then have "desc_is_text desc" by (simp add: desc_def)
  then have "\<not> truthy desc \<or> (\<exists>d. py_add_str ''- '' desc = Inr d)"
    by (cases desc) (auto simp: desc_is_text_def py_add_str_def)
  then show ?thesis
    unfolding campaign_line_def desc_def [symmetric] Let_def by auto
qed

lemma menu_loop_returns:
  "list_all (\<lambda>item. desc_is_text (row_get item ''Description'')) items \<Longrightarrow>
     \<exists>t. menu_loop items acc = Inr t"
proof (induction items arbitrary: acc)
  case Nil
  then show ?case by simp
next
  case (Cons item items)
  then obtain line where "menu_line item = Inr line" using menu_line_returns by auto
  with Cons show ?case by auto
qed

lemma campaigns_loop_returns:
  "list_all (\<lambda>c. desc_is_text (py_or (row_get c ''Description'')
               (py_or (row_get c ''Desc'') (CStr '''')))) cs \<Longrightarrow>
     \<exists>t. campaigns_loop cs acc = Inr t"
proof (induction cs arbitrary: acc)
  case Nil
  then show ?case by simp
next
  case (Cons c cs)
  then obtain line where "campaign_line c = Inr line" using campaign_line_returns by auto
  with Cons show ?case by auto
qed





lemma build_prompt_not_entitled:
  assumes "menu self = Some m" and "\<not> (is_booked \<and> is_verified)"
  shows "build_prompt self agents hotel_data q sid is_booked is_verified =
     Inr (preamble (agent_name_of agents) @ requirement_text
          @ ''Status: '' @ status_text is_booked @ ''\<newline>\<newline>''
          @ ''Hotel Data:\<newline>'' @ hotel_data @ ''\<newline>\<newline>''
          @ chat_history_text_of self sid @ ''\<newline>''
          @ ''Guest Query: '' @ q @ ''\<newline>''
          @ rules_text_of self)"
  using assms by (auto simp: build_prompt_def campaigns_text_of_def menu_text_of_def)


lemma build_prompt_returns:
  assumes "menu self = Some m"
    and "list_all (\<lambda>item. desc_is_text (row_get item ''Description'')) m"
    and "list_all (\<lambda>c. desc_is_text (py_or (row_get c ''Description'')
               (py_or (row_get c ''Desc'') (CStr ''''))))
           (take 5 (campaigns self))"
  shows "\<exists>p. build_prompt self agents hotel_data q sid is_booked is_verified = Inr p"
proof -
  have "\<exists>mt. menu_text_of self is_booked is_verified = Inr mt"
    using assms(1) menu_loop_returns [OF assms(2), of menu_header]
    by (cases "m \<noteq> [] \<and> (is_booked \<and> is_verified)") (simp_all add: menu_text_of_def)
  then obtain mt where mt: "menu_text_of self is_booked is_verified = Inr mt" by blast
  have "\<exists>ct. campaigns_text_of self is_booked is_verified = Inr ct"
    using campaigns_loop_returns [OF assms(3), of campaigns_header]
    by (cases "campaigns self \<noteq> [] \<and> (is_booked \<and> is_verified)")
      (simp_all add: campaigns_text_of_def)
  then obtain ct where ct: "campaigns_text_of self is_booked is_verified = Inr ct" by blast
  show ?thesis by (simp add: build_prompt_def Let_def mt ct)
qed

lemma refresh_sheets_chat_history: "chat_history (snd (refresh_sheets env self)) = chat_history self"
  by (simp add: refresh_sheets_def Let_def split: sum.splits)

lemma ask_prepare_history:
  assumes "ask_prepare env self query user_identifier = Inr (key, system_prompt, st)"
  shows "chat_history st key = Some (history_of self key @ [user_turn env query])
       \<and> (\<forall>k. k \<noteq> key \<longrightarrow> chat_history st k = chat_history self k)"
proof -
  define self1 where "self1 = (if use_sheet self then snd (refresh_sheets env self) else self)"
  have ch: "chat_history self1 = chat_history self"
    by (simp add: self1_def refresh_sheets_chat_history)
  from assms obtain client_row where
    st: "st = self1\<lparr>chat_history := (chat_history self1)
            (key \<mapsto> history_of self1 key @ [user_turn env query])\<rparr>"
    and "key = get_chat_history_key (time_now env) client_row user_identifier"
    unfolding ask_prepare_def self1_def [symmetric] Let_def
    by (auto split: sum.splits if_splits)
  have "history_of self1 key = history_of self key" by (simp add: history_of_def ch)
  with st ch show ?thesis by simp
qed


section \<open>The example bot: evaluations\<close>

lemmas sheet_names = qna_sheet_def dos_sheet_def campaign_sheet_def menu_sheet_def client_sheet_def

lemma refresh_example:
  "refresh_sheets (example_env llm) (example_bot\<lparr>chat_history := H\<rparr>)
     = (None, example_bot\<lparr>chat_history := H\<rparr>)"
  by (simp add: refresh_sheets_def example_env_def example_sheets_def sheet_names example_bot_def
      process_dos_def row_evals string_evals)

lemma find_example:
  "find_client_row (client_rows example_bot) ''a@x.com''
     = Inr (Some [(''Email'', CStr ''a@x.com''), (''Workfow Stage'', CStr ''Confirmed''),
                  (''Id Link'', CStr ''https://id.example/1'')])"
  by (simp add: find_client_row_def example_bot_def email_of_def string_evals)

lemma booked_example:
  "is_user_booked (Some [(''Email'', CStr ''a@x.com''), (''Workfow Stage'', CStr ''Confirmed''),
                  (''Id Link'', CStr ''https://id.example/1'')]) = True"
  by (simp add: is_user_booked_def workflow_stage_def row_evals string_evals)

lemma verified_example:
  "is_id_verified (Some [(''Email'', CStr ''a@x.com''), (''Workfow Stage'', CStr ''Confirmed''),
                  (''Id Link'', CStr ''https://id.example/1'')]) = True"
  by (simp add: is_id_verified_def row_evals string_evals)

lemma key_example:
  "get_chat_history_key t (Some [(''Email'', CStr ''a@x.com''), (''Workfow Stage'', CStr ''Confirmed''),
                  (''Id Link'', CStr ''https://id.example/1'')]) u = CStr ''a@x.com''"
  by (simp add: get_chat_history_key_def row_evals)

lemma retrieve_example5:
  "retrieve_from_sheets (example_bot\<lparr>chat_history := H\<rparr>) ''pool'' (Some 5)
   = [\<lparr>page_content = ''Q: Pool\<newline>A: Open'', score = 277 / 340,
       metadata = [(''question'', CStr ''Pool''), (''answer'', CStr ''Open'')]\<rparr>,
      \<lparr>page_content = ''Q: Spa\<newline>A: 9am'', score = 7 / 150,
       metadata = [(''question'', CStr ''Spa''), (''answer'', CStr ''9am'')]\<rparr>]"
  by (simp add: retrieve_from_sheets_def k_or_default_def example_bot_def py_slice_to_def
      scored_results_def py_sort_desc_def to_passage_def doc_text_spa doc_text_pool
      score_spa score_pool)



lemma rules_text_example:
  "rules_text_of (example_bot\<lparr>chat_history := H\<rparr>)
     = ''\<newline>\<newline>'' @ clipboard_emoji @ '' **Important Communication Rules:**\<newline>''
       @ ''- '' @ check_emoji @ '' Do: Greet the guest\<newline>''
       @ ''- '' @ cross_emoji @ '' Don't: Argue\<newline>''"
  by (simp add: rules_text_of_def example_bot_def row_evals string_evals)

lemma example_bot_fields:
  "use_sheet example_bot = True" "retriever_k example_bot = 5"
  "chat_history example_bot = Map.empty"
  "menu example_bot = Some [[(''Type'', CStr ''Drink''), (''Item'', CStr ''Masala chai''), (''Price'', CNum 120)]]"
  by (simp_all add: example_bot_def)

lemma example_descriptions:
  "list_all (\<lambda>item. desc_is_text (row_get item ''Description''))
     [[(''Type'', CStr ''Drink''), (''Item'', CStr ''Masala chai''), (''Price'', CNum 120)]]"
  "list_all (\<lambda>c. desc_is_text (py_or (row_get c ''Description'')
               (py_or (row_get c ''Desc'') (CStr '''')))) (take 5 (campaigns example_bot))"
  by (simp_all add: example_bot_def desc_is_text_def row_evals)

lemma ask_prepare_example:
  "\<exists>p. ask_prepare (example_env llm) (example_bot\<lparr>chat_history := H\<rparr>) ''pool'' (Some ''a@x.com'')
     = Inr (CStr ''a@x.com'', p,
            example_bot\<lparr>chat_history := H(CStr ''a@x.com'' \<mapsto>
              (case H (CStr ''a@x.com'') of None \<Rightarrow> [] | Some h \<Rightarrow> h)
              @ [user_turn (example_env llm) ''pool''])\<rparr>)"
proof -
  define st where "st = example_bot\<lparr>chat_history := H(CStr ''a@x.com'' \<mapsto>
              (case H (CStr ''a@x.com'') of None \<Rightarrow> [] | Some h \<Rightarrow> h)
              @ [user_turn (example_env llm) ''pool''])\<rparr>"
  have m: "menu st = Some [[(''Type'', CStr ''Drink''), (''Item'', CStr ''Masala chai''), (''Price'', CNum 120)]]"
    by (simp add: st_def example_bot_fields)
  have c: "campaigns st = campaigns example_bot" by (simp add: st_def)
  from build_prompt_returns [OF m example_descriptions(1), unfolded c, OF example_descriptions(2)]
  obtain p where p: "build_prompt st (agents_file (example_env llm))
      (py_join ''\<newline>\<newline>'' [''Q: Pool\<newline>A: Open'', ''Q: Spa\<newline>A: 9am'']) ''pool''
      (Some (CStr ''a@x.com'')) True True = Inr p"
    by blast
  have "ask_prepare (example_env llm) (example_bot\<lparr>chat_history := H\<rparr>) ''pool'' (Some ''a@x.com'')
     = Inr (CStr ''a@x.com'', p, st)"
    using p unfolding st_def
    by (simp add: ask_prepare_def Let_def refresh_example find_example key_example booked_example
        verified_example retrieve_example5 example_bot_fields history_of_def)
  then show ?thesis unfolding st_def by blast
qed

lemma example_bot_no_history: "example_bot\<lparr>chat_history := Map.empty\<rparr> = example_bot"
  by (simp add: example_bot_def)


section \<open>The policy gate of the prompt\<close>



text \<open>The whole prompt for a guest without a booking.\<close>

lemma build_prompt_example_not_booked:
  "build_prompt example_bot None ''Q: Pool\<newline>A: Open'' ''can I get room service'' None False False
   = Inr (''You are an AI agent named AI Assistant, a knowledgeable and polite concierge assistant at ILORA RETREATS. ''
          @ ''For in-room services, spa bookings, or amenity access, politely explain that a confirmed booking and ID verification are required.\<newline>\<newline>''
          @ ''Status: Not Booked\<newline>\<newline>''
          @ ''Hotel Data:\<newline>Q: Pool\<newline>A: Open\<newline>\<newline>''
          @ ''\<newline>''
          @ ''Guest Query: can I get room service\<newline>''
          @ ''\<newline>\<newline>'' @ clipboard_emoji @ '' **Important Communication Rules:**\<newline>''
          @ ''- '' @ check_emoji @ '' Do: Greet the guest\<newline>''
          @ ''- '' @ cross_emoji @ '' Don't: Argue\<newline>'')"
proof -
  have r: "rules_text_of example_bot
     = ''\<newline>\<newline>'' @ clipboard_emoji @ '' **Important Communication Rules:**\<newline>''
       @ ''- '' @ check_emoji @ '' Do: Greet the guest\<newline>''
       @ ''- '' @ cross_emoji @ '' Don't: Argue\<newline>''"
    using rules_text_example [of Map.empty] by (simp add: example_bot_no_history)
  show ?thesis
    by (simp add: build_prompt_not_entitled [OF example_bot_fields(4)] r agent_name_of_def
        preamble_def requirement_text_def status_text_def chat_history_text_of_def)
qed

section \<open>A turn whose completion fails\<close>

text \<open>
  C2, as the claim states it, fails: when the completion raises, the reply is the apology,
  but the history of the guest holds the user turn only. The apology is not appended as an
  assistant turn, so the turns are not paired.
\<close>

theorem ask_failure_apology_not_recorded:
  "fst (ask (example_env llm_down) example_bot ''pool'' (Some ''a@x.com'')) = apology
   \<and> chat_history (snd (ask (example_env llm_down) example_bot ''pool'' (Some ''a@x.com'')))
        (CStr ''a@x.com'')
     = Some [\<lparr>role = ''user'', msg_text = ''pool'', timestamp = ''2023-11-14T22:13:20.250000''\<rparr>]"
proof -
  from ask_prepare_example [of llm_down Map.empty]
  obtain p where "ask_prepare (example_env llm_down) example_bot ''pool'' (Some ''a@x.com'')
     = Inr (CStr ''a@x.com'', p,
            example_bot\<lparr>chat_history := [CStr ''a@x.com'' \<mapsto> [user_turn (example_env llm_down) ''pool'']]\<rparr>)"
    by (auto simp: example_bot_no_history)
  then show ?thesis
    by (simp add: ask_def example_env_def llm_down_def user_turn_def)
qed

text \<open>
  C2, amended. If the completion capability raises during a turn, \<open>ask\<close> returns the fixed
  apology string as the reply; the user turn has been appended to the history of the key
  and nothing else is: the apology is not recorded, so the stored history ends with a user
  turn that has no assistant turn. The histories of the other keys are unchanged.
\<close>

theorem ask_completion_failure:
  assumes "ask_prepare env self query user_identifier = Inr (key, system_prompt, st)"
    and "llm_invoke env system_prompt = Inl e"
  shows "ask env self query user_identifier = (apology, st)
       \<and> chat_history st key = Some (history_of self key @ [user_turn env query])
       \<and> (\<forall>k. k \<noteq> key \<longrightarrow> chat_history st k = chat_history self k)"
  using assms ask_prepare_history [OF assms(1)] by (simp add: ask_def)

theorem ask_completion_failure_witness:
  "ask (example_env llm_down) example_bot ''pool'' (Some ''a@x.com'')
     = (apology, example_bot\<lparr>chat_history :=
          [CStr ''a@x.com'' \<mapsto> [user_turn (example_env llm_down) ''pool'']]\<rparr>)"
proof -
  from ask_prepare_example [of llm_down Map.empty]
  obtain p where h: "ask_prepare (example_env llm_down) example_bot ''pool'' (Some ''a@x.com'')
     = Inr (CStr ''a@x.com'', p,
            example_bot\<lparr>chat_history := [CStr ''a@x.com'' \<mapsto> [user_turn (example_env llm_down) ''pool'']]\<rparr>)"
    by (auto simp: example_bot_no_history)
  have l: "llm_invoke (example_env llm_down) p = Inl ExternalError"
    by (simp add: example_env_def llm_down_def)
  from ask_completion_failure [OF h l] show ?thesis by simp
qed

section \<open>The bound on the history\<close>




end
